theory Spec2Isabelle
  imports Main "HOL-Library.Sublist"
begin

section \<open>Data model of \<open>lib/utils/parameter-store-helper.ts\<close>\<close>

text \<open>
  The interface \<open>ParameterSecret\<close>. The two optional fields are \<open>None\<close> when the
  property is absent (\<open>undefined\<close> in the source). Strings are lists of characters;
  the only string operations of the source are concatenation (template literals) and
  \<open>includes("/")\<close>, which is membership of the one character.
\<close>

datatype ParameterType = String | SecureString

record ParameterSecret =
  environmentVariable :: string
  parameterPath :: string
  type :: "ParameterType option"
  required :: "bool option"

text \<open>
  The value object \<open>iam.PolicyStatement\<close> as the source constructs it: the three
  properties handed to the constructor.
\<close>

datatype Effect = ALLOW | DENY

record PolicyStatement =
  actions :: "string list"
  resources :: "string list"
  effect :: Effect

section \<open>The external library and the world it acts on\<close>

text \<open>
  The CDK calls of \<open>createParameterStoreSecret\<close> are not code of the repository: they
  are parameters of the model. \<open>ssm.StringParameter.fromStringParameterAttributes\<close>
  receives the construct (whose tree it may change), the logical id and the parameter
  name, and either throws a value of type \<open>'e\<close> (\<open>Inl\<close>) or returns a parameter handle;
  \<open>ecs.Secret.fromSsmParameter\<close> turns the handle into a secret or throws. No
  assumption is made on what is thrown or when.
\<close>

record ('e, 'c, 'p, 's) cdk =
  fromStringParameterAttributes :: "'c \<Rightarrow> string \<Rightarrow> string \<Rightarrow> ('e + 'p) \<times> 'c"
  fromSsmParameter :: "'p \<Rightarrow> 'e + 's"

text \<open>
  What a call of the helper can change outside its own variables: the construct it was
  given and the lines written by \<open>console.warn\<close> (oldest first).
\<close>

record 'c world =
  construct :: 'c
  console :: "string list"

text \<open>
  A plain JavaScript object used as a dictionary, as its own enumerable properties
  (what \<open>Object.keys\<close> and \<open>Object.entries\<close> read). \<open>obj[key] = v\<close> creates or
  overwrites the own property \<open>key\<close>, with one exception on an object made by the
  literal \<open>{}\<close>: the key \<open>__proto__\<close> is an accessor inherited from
  \<open>Object.prototype\<close>, so the assignment calls its setter, which re-parents \<open>obj\<close> when
  the value is an object and never adds an own property. The objects stored are taken
  to be plain ones (writable data properties only, as CDK's secrets are), so that a
  re-parented \<open>obj\<close> still takes every other key as an own property.
\<close>

definition assign :: "(string \<rightharpoonup> 'v) \<Rightarrow> string \<Rightarrow> 'v \<Rightarrow> (string \<rightharpoonup> 'v)" where
  "assign obj key v = (if key = ''__proto__'' then obj else obj(key \<mapsto> v))"

section \<open>Exceptions and loops\<close>

text \<open>
  A statement that may throw maps a state to an outcome (\<open>Inl\<close> the thrown value) and
  the state reached. \<open>try { body } catch (error) { handler }\<close> runs the handler on
  whatever the body threw, from the state the body reached; the source's \<open>catch\<close> has
  no filter on the kind of the exception.
\<close>

definition try_catch ::
  "('st \<Rightarrow> ('e + 'a) \<times> 'st) \<Rightarrow> ('e \<Rightarrow> 'st \<Rightarrow> ('e + 'a) \<times> 'st) \<Rightarrow> 'st \<Rightarrow> ('e + 'a) \<times> 'st" where
  "try_catch body handler st =
     (case body st of
        (Inl error, st') \<Rightarrow> handler error st'
      | (Inr a, st') \<Rightarrow> (Inr a, st'))"

text \<open>\<open>for (const x of xs) { body }\<close>: an exception leaving the body leaves the loop.\<close>

fun for_of :: "('a \<Rightarrow> 'st \<Rightarrow> ('e + unit) \<times> 'st) \<Rightarrow> 'a list \<Rightarrow> 'st \<Rightarrow> ('e + unit) \<times> 'st" where
  "for_of body [] st = (Inr (), st)"
| "for_of body (x # xs) st =
     (case body x st of
        (Inl error, st') \<Rightarrow> (Inl error, st')
      | (Inr u, st') \<Rightarrow> for_of body xs st')"

section \<open>The helper functions\<close>

text \<open>\<open>createParameterStoreSecret(construct, logicalId, parameterPath)\<close>, lines 32-46.\<close>

definition createParameterStoreSecret ::
  "('e, 'c, 'p, 's) cdk \<Rightarrow> 'c \<Rightarrow> string \<Rightarrow> string \<Rightarrow> ('e + 's) \<times> 'c" where
  "createParameterStoreSecret lib c logicalId path =
     (case fromStringParameterAttributes lib c logicalId path of
        (Inl error, c') \<Rightarrow> (Inl error, c')
      | (Inr param, c') \<Rightarrow> (fromSsmParameter lib param, c'))"

text \<open>
  The local constant \<open>parameterPath\<close> of the loop body of \<open>createSecretsMap\<close>, lines
  63-65 (the spec's \<open>resolvePath\<close>).
\<close>

definition resolvePath :: "string \<Rightarrow> ParameterSecret \<Rightarrow> string" where
  "resolvePath environment param =
     (if CHR ''/'' \<in> set (parameterPath param) then parameterPath param
      else ''/eduka3d/'' @ environment @ ''/'' @ parameterPath param)"

text \<open>The line written by \<open>console.warn\<close>, lines 75-77.\<close>

definition warning :: "ParameterSecret \<Rightarrow> string \<Rightarrow> string" where
  "warning param path =
     ''Warning: Could not create secret for '' @ environmentVariable param @ '' at '' @ path"

text \<open>
  The \<open>try\<close> block, lines 67-72: the right-hand side is evaluated first, and the
  assignment to \<open>secretsMap\<close> happens only when it returned.
\<close>

definition try_block ::
  "('e, 'c, 'p, 's) cdk \<Rightarrow> ParameterSecret \<Rightarrow> string \<Rightarrow>
   (string \<rightharpoonup> 's) \<times> 'c world \<Rightarrow> ('e + unit) \<times> (string \<rightharpoonup> 's) \<times> 'c world" where
  "try_block lib param path st =
     (case st of (secretsMap, w) \<Rightarrow>
        (case createParameterStoreSecret lib (construct w) (environmentVariable param) path of
           (Inl error, c') \<Rightarrow> (Inl error, (secretsMap, w\<lparr>construct := c'\<rparr>))
         | (Inr secret, c') \<Rightarrow>
             (Inr (), (assign secretsMap (environmentVariable param) secret,
                       w\<lparr>construct := c'\<rparr>))))"

text \<open>The \<open>catch\<close> block, lines 73-79: \<open>param.required !== false\<close> holds for
  \<open>true\<close> and for an absent field.\<close>

definition catch_block ::
  "ParameterSecret \<Rightarrow> string \<Rightarrow> 'e \<Rightarrow>
   (string \<rightharpoonup> 's) \<times> 'c world \<Rightarrow> ('e + unit) \<times> (string \<rightharpoonup> 's) \<times> 'c world" where
  "catch_block param path error st =
     (case st of (secretsMap, w) \<Rightarrow>
        (if required param \<noteq> Some False
         then (Inr (), (secretsMap, w\<lparr>console := console w @ [warning param path]\<rparr>))
         else (Inr (), (secretsMap, w))))"

text \<open>The body of the loop, lines 63-79.\<close>

definition loop_body ::
  "('e, 'c, 'p, 's) cdk \<Rightarrow> string \<Rightarrow> ParameterSecret \<Rightarrow>
   (string \<rightharpoonup> 's) \<times> 'c world \<Rightarrow> ('e + unit) \<times> (string \<rightharpoonup> 's) \<times> 'c world" where
  "loop_body lib environment param =
     (let path = resolvePath environment param
      in try_catch (try_block lib param path) (catch_block param path))"

text \<open>
  \<open>createSecretsMap(construct, environment, parameters)\<close>, lines 55-83: the object
  starts empty, the loop runs over the parameters in order, the object is returned.
\<close>

definition createSecretsMap ::
  "('e, 'c, 'p, 's) cdk \<Rightarrow> 'c world \<Rightarrow> string \<Rightarrow> ParameterSecret list \<Rightarrow>
   ('e + (string \<rightharpoonup> 's)) \<times> 'c world" where
  "createSecretsMap lib w environment parameters =
     (case for_of (loop_body lib environment) parameters (Map.empty, w) of
        (Inl error, (secretsMap, w')) \<Rightarrow> (Inl error, w')
      | (Inr u, (secretsMap, w')) \<Rightarrow> (Inr secretsMap, w'))"

text \<open>\<open>createParameterStorePolicy(environment, region, accountId)\<close>, lines 92-108.\<close>

definition createParameterStorePolicy :: "string \<Rightarrow> string \<Rightarrow> string \<Rightarrow> PolicyStatement" where
  "createParameterStorePolicy environment region accountId =
     \<lparr>actions = [''ssm:GetParameter'', ''ssm:GetParameters'', ''ssm:GetParametersByPath''],
      resources =
        [''arn:aws:ssm:'' @ region @ '':'' @ accountId @ '':parameter/eduka3d/''
           @ environment @ ''/*''],
      effect = ALLOW\<rparr>"

text \<open>\<open>createKmsDecryptPolicy()\<close>, lines 114-120.\<close>

definition createKmsDecryptPolicy :: PolicyStatement where
  "createKmsDecryptPolicy =
     \<lparr>actions = [''kms:Decrypt'', ''kms:DescribeKey''],
      resources = [''*''],
      effect = ALLOW\<rparr>"

text \<open>The table \<open>DEFAULT_PARAMETERS\<close>, lines 125-240 (the PayPal entries are commented
  out in the source).\<close>

definition DEFAULT_PARAMETERS :: "ParameterSecret list" where
  "DEFAULT_PARAMETERS =
    [\<lparr>environmentVariable = ''DJANGO_SECRET_KEY'', parameterPath = ''DJANGO_SECRET_KEY'',
      type = Some SecureString, required = Some True\<rparr>,
     \<lparr>environmentVariable = ''DJANGO_ALLOWED_HOSTS'', parameterPath = ''DJANGO_ALLOWED_HOSTS'',
      type = Some String, required = None\<rparr>,
     \<lparr>environmentVariable = ''DJANGO_CSRF_TRUSTED_ORIGINS'',
      parameterPath = ''DJANGO_CSRF_TRUSTED_ORIGINS'',
      type = Some String, required = None\<rparr>,
     \<lparr>environmentVariable = ''DATABASE_NAME'', parameterPath = ''DATABASE_NAME'',
      type = Some String, required = Some True\<rparr>,
     \<lparr>environmentVariable = ''DATABASE_USER'', parameterPath = ''DATABASE_USER'',
      type = Some String, required = Some True\<rparr>,
     \<lparr>environmentVariable = ''DATABASE_HOST'', parameterPath = ''DATABASE_HOST'',
      type = Some String, required = Some True\<rparr>,
     \<lparr>environmentVariable = ''DATABASE_PORT'', parameterPath = ''DATABASE_PORT'',
      type = Some String, required = Some True\<rparr>,
     \<lparr>environmentVariable = ''EMAIL_HOST'', parameterPath = ''EMAIL_HOST'',
      type = Some String, required = None\<rparr>,
     \<lparr>environmentVariable = ''EMAIL_PORT'', parameterPath = ''EMAIL_PORT'',
      type = Some String, required = None\<rparr>,
     \<lparr>environmentVariable = ''EMAIL_HOST_USER'', parameterPath = ''EMAIL_HOST_USER'',
      type = Some String, required = None\<rparr>,
     \<lparr>environmentVariable = ''EMAIL_HOST_PASSWORD'', parameterPath = ''EMAIL_HOST_PASSWORD'',
      type = Some SecureString, required = None\<rparr>,
     \<lparr>environmentVariable = ''EMAIL_USE_TLS'', parameterPath = ''EMAIL_USE_TLS'',
      type = Some String, required = None\<rparr>,
     \<lparr>environmentVariable = ''DEFAULT_FROM_EMAIL'', parameterPath = ''DEFAULT_FROM_EMAIL'',
      type = Some String, required = None\<rparr>,
     \<lparr>environmentVariable = ''RECAPTCHA_PUBLIC_KEY'', parameterPath = ''RECAPTCHA_PUBLIC_KEY'',
      type = Some String, required = None\<rparr>,
     \<lparr>environmentVariable = ''RECAPTCHA_PRIVATE_KEY'', parameterPath = ''RECAPTCHA_PRIVATE_KEY'',
      type = Some SecureString, required = None\<rparr>,
     \<lparr>environmentVariable = ''STRIPE_PUBLISHABLE_KEY'',
      parameterPath = ''STRIPE_PUBLISHABLE_KEY'',
      type = Some String, required = None\<rparr>,
     \<lparr>environmentVariable = ''STRIPE_SECRET_KEY'', parameterPath = ''STRIPE_SECRET_KEY'',
      type = Some SecureString, required = None\<rparr>]"

section \<open>Relations and test doubles used in the statements\<close>

text \<open>Two descriptors that agree on every field but \<open>type\<close>.\<close>

definition differ_only_in_type :: "ParameterSecret \<Rightarrow> ParameterSecret \<Rightarrow> bool" where
  "differ_only_in_type p q \<longleftrightarrow>
     environmentVariable p = environmentVariable q \<and> parameterPath p = parameterPath q \<and>
     required p = required q"

text \<open>
  A stand-in for the library, for running the helper on concrete inputs. Its construct
  is the log of the calls made (logical id and parameter name, oldest first), so that
  two runs with equal final constructs made the same storage calls; \<open>failure\<close> says
  which parameter names make the lookup throw, and what.
\<close>

datatype StorageError = ParameterNotFound | AccessDenied | MalformedPath | Throttling

definition stub ::
  "(string \<Rightarrow> StorageError option) \<Rightarrow>
   (StorageError, (string \<times> string) list, string, string) cdk" where
  "stub failure =
     \<lparr>fromStringParameterAttributes =
        (\<lambda>calls logicalId name.
           (case failure name of Some error \<Rightarrow> Inl error | None \<Rightarrow> Inr name,
            calls @ [(logicalId, name)])),
      fromSsmParameter = (\<lambda>param. Inr (''ssm:'' @ param))\<rparr>"

definition every_path_found :: "string \<Rightarrow> StorageError option" where
  "every_path_found name = None"

definition no_path_found :: "string \<Rightarrow> StorageError option" where
  "no_path_found name = Some ParameterNotFound"

definition access_denied :: "string \<Rightarrow> StorageError option" where
  "access_denied name = Some AccessDenied"

definition throttled :: "string \<Rightarrow> StorageError option" where
  "throttled name = Some Throttling"

definition fresh :: "(string \<times> string) list world" where
  "fresh = \<lparr>construct = [], console = []\<rparr>"

definition spec :: "string \<Rightarrow> string \<Rightarrow> bool option \<Rightarrow> ParameterSecret" where
  "spec name path req =
     \<lparr>environmentVariable = name, parameterPath = path, type = None, required = req\<rparr>"



section \<open>What a policy statement allows\<close>

text \<open>
  The consumer of the statements is AWS IAM, outside the repository. Its documented
  matching of a resource pattern against an ARN: \<open>*\<close> stands for any sequence of
  characters, \<open>?\<close> for any one character, every other character for itself.
\<close>

fun glob_match :: "string \<Rightarrow> string \<Rightarrow> bool" where
  "glob_match [] s = (s = [])"
| "glob_match (p # ps) [] = (p = CHR ''*'' \<and> glob_match ps [])"
| "glob_match (p # ps) (c # cs) =
     (if p = CHR ''*'' then glob_match ps (c # cs) \<or> glob_match (p # ps) cs
      else (p = CHR ''?'' \<or> p = c) \<and> glob_match ps cs)"

text \<open>
  The ARN of the Systems Manager parameter called \<open>name\<close>, as AWS and CDK form it.
  The partition of the region comes second (\<open>aws\<close> for the standard regions,
  \<open>aws-cn\<close> and \<open>aws-us-gov\<close> for the others); a name that starts with the separator
  follows \<open>parameter\<close> directly, any other name follows \<open>parameter/\<close>.
\<close>

definition parameterArn :: "string \<Rightarrow> string \<Rightarrow> string \<Rightarrow> string \<Rightarrow> string" where
  "parameterArn part region accountId name =
     ''arn:'' @ part @ '':ssm:'' @ region @ '':'' @ accountId @ '':parameter'' @
       (if take 1 name = ''/'' then name else ''/'' @ name)"

text \<open>An allow statement covers an ARN when one of its resource patterns matches it.\<close>

definition allows :: "PolicyStatement \<Rightarrow> string \<Rightarrow> bool" where
  "allows statement arn \<longleftrightarrow>
     effect statement = ALLOW \<and>
     list_ex (\<lambda>pattern. glob_match pattern arn) (resources statement)"

section \<open>The loop of \<open>createSecretsMap\<close>\<close>

text \<open>One iteration, by the outcome of the call of \<open>createParameterStoreSecret\<close>.\<close>

lemma loop_body_cases:
  "loop_body lib environment param (secretsMap, w) =
     (case createParameterStoreSecret lib (construct w) (environmentVariable param)
             (resolvePath environment param) of
        (Inl error, c') \<Rightarrow>
          (Inr (), (secretsMap,
             w\<lparr>construct := c',
               console := console w @
                 (if required param = Some False then []
                  else [warning param (resolvePath environment param)])\<rparr>))
      | (Inr secret, c') \<Rightarrow>
          (Inr (), (assign secretsMap (environmentVariable param) secret, w\<lparr>construct := c'\<rparr>)))"
  by (simp add: loop_body_def try_catch_def try_block_def catch_block_def Let_def
           split: prod.splits sum.splits)

lemma loop_body_returns: "fst (loop_body lib environment param st) = Inr ()"
  by (cases st) (simp add: loop_body_cases split: prod.splits sum.splits)

lemma for_of_returns:
  assumes "\<And>x st. fst (body x st) = Inr ()"
  shows "fst (for_of body xs st) = Inr ()"
proof (induction xs arbitrary: st)
  case Nil
  show ?case by simp
next
  case (Cons x xs)
  obtain st' where "body x st = (Inr (), st')"
    using assms [of x st] by (cases "body x st") auto
  then show ?case using Cons.IH by simp
qed

lemma for_of_append:
  "for_of body (xs @ ys) st =
     (case for_of body xs st of
        (Inl error, st') \<Rightarrow> (Inl error, st')
      | (Inr u, st') \<Rightarrow> for_of body ys st')"
  by (induction xs arbitrary: st) (auto split: prod.splits sum.splits)

lemma createSecretsMap_returns:
  "\<exists>secretsMap. fst (createSecretsMap lib w environment parameters) = Inr secretsMap"
proof -
  have "fst (for_of (loop_body lib environment) parameters (Map.empty, w)) = Inr ()"
    by (rule for_of_returns) (rule loop_body_returns)
  then show ?thesis
    by (auto simp: createSecretsMap_def split: prod.splits sum.splits)
qed

lemma createSecretsMap_loop:
  assumes "createSecretsMap lib w environment parameters = (Inr m, w')"
  shows "for_of (loop_body lib environment) parameters (Map.empty, w) = (Inr (), (m, w'))"
proof -
  have "fst (for_of (loop_body lib environment) parameters (Map.empty, w)) = Inr ()"
    by (rule for_of_returns) (rule loop_body_returns)
  with assms show ?thesis
    by (auto simp: createSecretsMap_def split: prod.splits sum.splits)
qed

text \<open>One more descriptor at the end of the list is one more iteration.\<close>

lemma createSecretsMap_snoc:
  assumes "createSecretsMap lib w environment before = (Inr m1, w1)"
  shows "createSecretsMap lib w environment (before @ [param]) =
           (case loop_body lib environment param (m1, w1) of
              (r, (m2, w2)) \<Rightarrow> (Inr m2, w2))"
proof -
  note run = createSecretsMap_loop [OF assms]
  obtain m2 w2 where step: "loop_body lib environment param (m1, w1) = (Inr (), (m2, w2))"
    using loop_body_returns [of lib environment param "(m1, w1)"]
    by (cases "loop_body lib environment param (m1, w1)") auto
  show ?thesis
    by (simp add: createSecretsMap_def for_of_append run step)
qed

lemma loop_body_ignores_type:
  "differ_only_in_type p q \<Longrightarrow> loop_body lib environment p = loop_body lib environment q"
proof (rule ext)
  fix st
  assume "differ_only_in_type p q"
  then have same: "environmentVariable p = environmentVariable q"
      "resolvePath environment p = resolvePath environment q" "required p = required q"
      "warning p = warning q"
    by (simp_all add: differ_only_in_type_def resolvePath_def warning_def fun_eq_iff)
  show "loop_body lib environment p st = loop_body lib environment q st"
    by (cases st) (simp add: loop_body_cases same split: prod.splits sum.splits)
qed

text \<open>The loop adds no key but the names of the descriptors it runs over.\<close>

lemma for_of_keys:
  "for_of (loop_body lib environment) ps (m, w) = (r, (m', w')) \<Longrightarrow>
     dom m' \<subseteq> dom m \<union> environmentVariable ` set ps"
proof (induction ps arbitrary: m w)
  case Nil
  then show ?case by simp
next
  case (Cons p ps)
  obtain m1 w1 where step: "loop_body lib environment p (m, w) = (Inr (), (m1, w1))"
    using loop_body_returns [of lib environment p "(m, w)"]
    by (cases "loop_body lib environment p (m, w)") auto
  then have "dom m1 \<subseteq> dom m \<union> {environmentVariable p}"
    by (auto simp: loop_body_cases assign_def split: prod.splits sum.splits if_splits)
  moreover have "dom m' \<subseteq> dom m1 \<union> environmentVariable ` set ps"
    using Cons.prems step by (intro Cons.IH [of m1 w1]) simp
  ultimately show ?case by (simp add: subset_iff) blast
qed

section \<open>Failure of a lookup\<close>

text \<open>
  Claim C1. When the construction of the secret for a descriptor's resolved path throws,
  \<open>createSecretsMap\<close> leaves the mapping as it was before that descriptor (no entry is
  added for it), writes the warning exactly when \<open>required\<close> is not \<open>false\<close> (an
  absent \<open>required\<close> counts as true), and goes on: the whole call returns a mapping,
  whatever follows the descriptor in the list.
\<close>

theorem createSecretsMap_failure_skips_entry:
  assumes before: "createSecretsMap lib w environment before = (Inr m1, w1)"
    and failure: "createParameterStoreSecret lib (construct w1) (environmentVariable param)
                    (resolvePath environment param) = (Inl error, c')"
  shows "createSecretsMap lib w environment (before @ [param]) =
           (Inr m1,
            w1\<lparr>construct := c',
               console := console w1 @
                 (if required param = Some False then []
                  else [warning param (resolvePath environment param)])\<rparr>) \<and>
         (\<exists>secretsMap.
            fst (createSecretsMap lib w environment (before @ param # after)) = Inr secretsMap)"
proof
  show "createSecretsMap lib w environment (before @ [param]) =
           (Inr m1,
            w1\<lparr>construct := c',
               console := console w1 @
                 (if required param = Some False then []
                  else [warning param (resolvePath environment param)])\<rparr>)"
    by (simp add: createSecretsMap_snoc [OF before] loop_body_cases failure)
  show "\<exists>secretsMap.
          fst (createSecretsMap lib w environment (before @ param # after)) = Inr secretsMap"
    by (rule createSecretsMap_returns)
qed

text \<open>
  A store in which no path is found: a required descriptor leaves the mapping empty and
  one warning on the console, an optional one leaves the mapping empty and no warning.
\<close>

theorem createSecretsMap_failure_skips_entry_witness:
  "createSecretsMap (stub no_path_found) fresh ''dev'' [spec ''A'' ''A'' (Some True)] =
     (Inr Map.empty,
      \<lparr>construct = [(''A'', ''/eduka3d/dev/A'')],
       console = [''Warning: Could not create secret for A at /eduka3d/dev/A'']\<rparr>) \<and>
   createSecretsMap (stub no_path_found) fresh ''dev'' [spec ''B'' ''B'' (Some False)] =
     (Inr Map.empty, \<lparr>construct = [(''B'', ''/eduka3d/dev/B'')], console = []\<rparr>)"
proof -
  have start: "createSecretsMap (stub no_path_found) fresh ''dev'' [] = (Inr Map.empty, fresh)"
    by (simp add: createSecretsMap_def)
  have a: "createParameterStoreSecret (stub no_path_found) (construct fresh)
             (environmentVariable (spec ''A'' ''A'' (Some True)))
             (resolvePath ''dev'' (spec ''A'' ''A'' (Some True))) =
           (Inl ParameterNotFound, [(''A'', ''/eduka3d/dev/A'')])"
    by (simp add: createParameterStoreSecret_def stub_def no_path_found_def fresh_def
          spec_def resolvePath_def)
  have b: "createParameterStoreSecret (stub no_path_found) (construct fresh)
             (environmentVariable (spec ''B'' ''B'' (Some False)))
             (resolvePath ''dev'' (spec ''B'' ''B'' (Some False))) =
           (Inl ParameterNotFound, [(''B'', ''/eduka3d/dev/B'')])"
    by (simp add: createParameterStoreSecret_def stub_def no_path_found_def fresh_def
          spec_def resolvePath_def)
  show ?thesis
    using createSecretsMap_failure_skips_entry [OF start a]
      createSecretsMap_failure_skips_entry [OF start b]
    by (simp add: fresh_def spec_def resolvePath_def warning_def)
qed

section \<open>Duplicate names\<close>

lemma for_of_keeps_other_keys:
  "for_of (loop_body lib environment) ps (m, w) = (r, (m', w')) \<Longrightarrow>
   key \<notin> environmentVariable ` set ps \<Longrightarrow> m' key = m key"
proof (induction ps arbitrary: m w)
  case Nil
  then show ?case by simp
next
  case (Cons p ps)
  obtain m1 w1 where step: "loop_body lib environment p (m, w) = (Inr (), (m1, w1))"
    using loop_body_returns [of lib environment p "(m, w)"]
    by (cases "loop_body lib environment p (m, w)") auto
  then have "m1 key = m key"
    using Cons.prems(2)
    by (auto simp: loop_body_cases assign_def split: prod.splits sum.splits if_splits)
  moreover have "m' key = m1 key"
    using Cons.prems step by (intro Cons.IH [of m1 w1]) simp_all
  ultimately show ?case by simp
qed

text \<open>
  The assignment of line 68 overwrites: under a library that lets the construction for
  a later descriptor of a name succeed, the entry is the secret of that later one.
\<close>

lemma createSecretsMap_last_wins:
  assumes before: "createSecretsMap lib w environment before = (Inr m1, w1)"
    and success: "createParameterStoreSecret lib (construct w1) (environmentVariable param)
                    (resolvePath environment param) = (Inr secret, c')"
    and key: "environmentVariable param \<noteq> ''__proto__''"
    and last: "environmentVariable param \<notin> environmentVariable ` set after"
  shows "\<exists>secretsMap w'.
           createSecretsMap lib w environment (before @ param # after) = (Inr secretsMap, w') \<and>
           secretsMap (environmentVariable param) = Some secret"
proof -
  note run = createSecretsMap_loop [OF before]
  have step: "loop_body lib environment param (m1, w1) =
      (Inr (), (m1(environmentVariable param \<mapsto> secret), w1\<lparr>construct := c'\<rparr>))"
    by (simp add: loop_body_cases success assign_def key)
  obtain r m' w' where rest: "for_of (loop_body lib environment) after
      (m1(environmentVariable param \<mapsto> secret), w1\<lparr>construct := c'\<rparr>) = (r, (m', w'))"
    by (metis prod.exhaust)
  have "r = Inr ()"
    using for_of_returns [of "loop_body lib environment" after
        "(m1(environmentVariable param \<mapsto> secret), w1\<lparr>construct := c'\<rparr>)"]
      loop_body_returns [of lib environment] rest by simp
  moreover have "m' (environmentVariable param) = Some secret"
    using for_of_keeps_other_keys [OF rest last] by simp
  ultimately show ?thesis
    by (simp add: createSecretsMap_def for_of_append run step rest)
qed







section \<open>Path resolution\<close>

text \<open>
  Claim C3. Path resolution returns the descriptor's \<open>parameterPath\<close> unchanged when it
  contains the separator \<open>/\<close>, and otherwise exactly \<open>/eduka3d/\<close>, the environment,
  \<open>/\<close> and the \<open>parameterPath\<close>, in that order; the resolved path is the one the
  loop body hands to the construction of the secret and to the warning.
\<close>

theorem resolvePath_cases:
  "(CHR ''/'' \<in> set (parameterPath param) \<longrightarrow>
      resolvePath environment param = parameterPath param) \<and>
   (CHR ''/'' \<notin> set (parameterPath param) \<longrightarrow>
      resolvePath environment param = ''/eduka3d/'' @ environment @ ''/'' @ parameterPath param) \<and>
   loop_body lib environment param st =
     try_catch (try_block lib param (resolvePath environment param))
       (catch_block param (resolvePath environment param)) st"
  by (simp add: resolvePath_def loop_body_def Let_def)

theorem resolvePath_cases_witness:
  "resolvePath ''dev'' (spec ''SHARED_KEY'' ''/shared/KEY'' None) = ''/shared/KEY'' \<and>
   resolvePath ''dev'' (spec ''DB_PASS'' ''DB_PASS'' None) = ''/eduka3d/dev/DB_PASS''"
  using
    resolvePath_cases [where param = "spec ''SHARED_KEY'' ''/shared/KEY'' None"
      and environment = "''dev''", THEN conjunct1]
    resolvePath_cases [where param = "spec ''DB_PASS'' ''DB_PASS'' None"
      and environment = "''dev''", THEN conjunct2, THEN conjunct1]
  by (simp add: spec_def)

section \<open>Resolved paths and the access policy\<close>

lemma glob_match_star: "glob_match ps s \<Longrightarrow> glob_match (CHR ''*'' # ps) s"
  by (cases s) simp_all

lemma glob_match_any: "glob_match ''*'' s"
  by (induction s) simp_all

lemma glob_match_append:
  "glob_match ps s \<Longrightarrow> glob_match qs t \<Longrightarrow> glob_match (ps @ qs) (s @ t)"
proof (induction ps s rule: glob_match.induct)
  case (1 s)
  then show ?case by simp
next
  case (2 p ps)
  then show ?case by (simp add: glob_match_star)
next
  case (3 p ps c cs)
  then show ?case by (auto split: if_splits)
qed

text \<open>A pattern matches itself, whatever wildcard characters it holds.\<close>

lemma glob_match_self: "glob_match s s"
proof (induction s)
  case Nil
  show ?case by simp
next
  case (Cons c s)
  then show ?case by (simp add: glob_match_star)
qed

lemma glob_match_prefix: "glob_match (ps @ ''*'') (ps @ t)"
  by (rule glob_match_append [OF glob_match_self glob_match_any])

text \<open>A pattern of the partition \<open>aws\<close> matches no ARN of another partition.\<close>

lemma other_partition_not_matched:
  assumes "CHR '':'' \<notin> set part" and "part \<noteq> ''aws''"
  shows "\<not> glob_match (''arn:aws:'' @ pattern) (''arn:'' @ part @ '':'' @ rest)"
proof (cases part)
  case Nil
  then show ?thesis by simp
next
  case (Cons a p1)
  show ?thesis
  proof (cases p1)
    case Nil
    with Cons show ?thesis by simp
  next
    case (Cons b p2)
    note c2 = this
    show ?thesis
    proof (cases p2)
      case Nil
      with c2 \<open>part = a # p1\<close> show ?thesis by simp
    next
      case (Cons c p3)
      with c2 \<open>part = a # p1\<close> assms show ?thesis by (cases p3) auto
    qed
  qed
qed

text \<open>
  Claim C4, as stated: every resolved path has the form \<open>/eduka3d/<environment>/<suffix>\<close>
  and is therefore matched by the resource pattern of \<open>createParameterStorePolicy\<close> for
  the same environment. It fails for a descriptor whose \<open>parameterPath\<close> holds a
  separator: the path \<open>/shared/KEY\<close> resolves to itself in the environment \<open>dev\<close>,
  outside the namespace and outside what the policy for \<open>dev\<close> allows. And the pattern
  of line 104 starts with \<open>arn:aws:\<close>: in a region of another partition even a path
  within the namespace is not matched.
\<close>

theorem resolved_path_outside_namespace:
  "resolvePath ''dev'' (spec ''SHARED_KEY'' ''/shared/KEY'' None) = ''/shared/KEY'' \<and>
   \<not> prefix ''/eduka3d/dev/'' (resolvePath ''dev'' (spec ''SHARED_KEY'' ''/shared/KEY'' None)) \<and>
   \<not> allows (createParameterStorePolicy ''dev'' ''eu-west-1'' ''123456789012'')
     (parameterArn ''aws'' ''eu-west-1'' ''123456789012''
        (resolvePath ''dev'' (spec ''SHARED_KEY'' ''/shared/KEY'' None))) \<and>
   \<not> allows (createParameterStorePolicy ''dev'' ''cn-north-1'' ''123456789012'')
     (parameterArn ''aws-cn'' ''cn-north-1'' ''123456789012''
        (resolvePath ''dev'' (spec ''DATABASE_HOST'' ''DATABASE_HOST'' None)))"
  by (simp add: resolvePath_def spec_def parameterArn_def allows_def createParameterStorePolicy_def)

text \<open>
  Claim C4, amended: for every descriptor whose \<open>parameterPath\<close> holds no separator
  and every environment, the resolved path is \<open>/eduka3d/\<close>, the environment, \<open>/\<close> and
  the \<open>parameterPath\<close>; in the partition \<open>aws\<close>, the ARN of that parameter is allowed
  by the statement that \<open>createParameterStorePolicy\<close> builds for the same environment,
  region and account, and in any other partition no ARN is allowed by it. A
  \<open>parameterPath\<close> with a separator is used as it is and need not lie in the namespace.
\<close>

theorem bare_path_in_namespace:
  assumes "CHR ''/'' \<notin> set (parameterPath param)"
  shows "resolvePath environment param =
           ''/eduka3d/'' @ environment @ ''/'' @ parameterPath param \<and>
         prefix (''/eduka3d/'' @ environment @ ''/'') (resolvePath environment param) \<and>
         allows (createParameterStorePolicy environment region accountId)
           (parameterArn ''aws'' region accountId (resolvePath environment param)) \<and>
         (CHR '':'' \<notin> set part \<and> part \<noteq> ''aws'' \<longrightarrow>
            \<not> allows (createParameterStorePolicy environment region accountId)
                (parameterArn part region' accountId' name))"
proof -
  have path: "resolvePath environment param =
      ''/eduka3d/'' @ environment @ ''/'' @ parameterPath param"
    using assms by (simp add: resolvePath_def)
  have arn: "parameterArn ''aws'' region accountId (resolvePath environment param) =
      (''arn:aws:ssm:'' @ region @ '':'' @ accountId @ '':parameter/eduka3d/''
         @ environment @ ''/'') @ parameterPath param"
    by (simp add: path parameterArn_def)
  have "glob_match
          ((''arn:aws:ssm:'' @ region @ '':'' @ accountId @ '':parameter/eduka3d/''
              @ environment @ ''/'') @ ''*'')
          (parameterArn ''aws'' region accountId (resolvePath environment param))"
    unfolding arn by (rule glob_match_prefix)
  then have yes: "allows (createParameterStorePolicy environment region accountId)
           (parameterArn ''aws'' region accountId (resolvePath environment param))"
    by (simp add: allows_def createParameterStorePolicy_def)
  have no: "\<not> allows (createParameterStorePolicy environment region accountId)
                (parameterArn part region' accountId' name)"
    if "CHR '':'' \<notin> set part" and "part \<noteq> ''aws''"
  proof -
    have "\<not> glob_match
        (''arn:aws:'' @ (''ssm:'' @ region @ '':'' @ accountId @ '':parameter/eduka3d/''
           @ environment @ ''/*''))
        (''arn:'' @ part @ '':'' @ (''ssm:'' @ region' @ '':'' @ accountId' @ '':parameter'' @
           (if take 1 name = ''/'' then name else ''/'' @ name)))"
      by (rule other_partition_not_matched [OF that])
    then show ?thesis
      by (simp add: allows_def createParameterStorePolicy_def parameterArn_def)
  qed
  from path yes no show ?thesis by simp
qed

theorem bare_path_in_namespace_witness:
  "resolvePath ''dev'' (spec ''DATABASE_HOST'' ''DATABASE_HOST'' None) =
     ''/eduka3d/dev/DATABASE_HOST'' \<and>
   allows (createParameterStorePolicy ''dev'' ''eu-west-1'' ''123456789012'')
     ''arn:aws:ssm:eu-west-1:123456789012:parameter/eduka3d/dev/DATABASE_HOST'' \<and>
   \<not> allows (createParameterStorePolicy ''dev'' ''us-gov-west-1'' ''123456789012'')
     ''arn:aws-us-gov:ssm:us-gov-west-1:123456789012:parameter/eduka3d/dev/DATABASE_HOST''"
proof -
  have bare: "CHR ''/'' \<notin> set (parameterPath (spec ''DATABASE_HOST'' ''DATABASE_HOST'' None))"
    by (simp add: spec_def)
  have arn: "parameterArn ''aws'' ''eu-west-1'' ''123456789012'' ''/eduka3d/dev/DATABASE_HOST'' =
      ''arn:aws:ssm:eu-west-1:123456789012:parameter/eduka3d/dev/DATABASE_HOST''"
    by (simp add: parameterArn_def)
  have gov: "parameterArn ''aws-us-gov'' ''us-gov-west-1'' ''123456789012''
        ''/eduka3d/dev/DATABASE_HOST'' =
      ''arn:aws-us-gov:ssm:us-gov-west-1:123456789012:parameter/eduka3d/dev/DATABASE_HOST''"
    by (simp add: parameterArn_def)
  have path: "resolvePath ''dev'' (spec ''DATABASE_HOST'' ''DATABASE_HOST'' None) =
      ''/eduka3d/dev/DATABASE_HOST''"
    by (simp add: resolvePath_def spec_def)
  have other: "CHR '':'' \<notin> set ''aws-us-gov'' \<and> ''aws-us-gov'' \<noteq> ''aws''"
    by simp
  show ?thesis
    using
      bare_path_in_namespace [OF bare, of "''dev''" "''eu-west-1''" "''123456789012''",
        THEN conjunct2, THEN conjunct2, THEN conjunct1]
      bare_path_in_namespace [OF bare, of "''dev''" "''us-gov-west-1''" "''123456789012''"
        "''aws-us-gov''" "''us-gov-west-1''" "''123456789012''" "''/eduka3d/dev/DATABASE_HOST''",
        THEN conjunct2, THEN conjunct2, THEN conjunct2, rule_format, OF other]
    unfolding path arn gov by (simp add: path)
qed

section \<open>Exceptions of any kind\<close>

text \<open>
  Claim C5, as stated: an exception of the construction that is not a not-found failure
  is not handled and leaves \<open>createSecretsMap\<close>. It fails: on a store that denies access
  the construction throws \<open>AccessDenied\<close>, and \<open>createSecretsMap\<close> returns normally,
  with the warning on the console.
\<close>

theorem access_denied_is_caught:
  "createParameterStoreSecret (stub access_denied) [] ''DB_PASS'' ''/eduka3d/prod/DB_PASS'' =
     (Inl AccessDenied, [(''DB_PASS'', ''/eduka3d/prod/DB_PASS'')]) \<and>
   \<not> isl (fst (createSecretsMap (stub access_denied) fresh ''prod''
                  [spec ''DB_PASS'' ''DB_PASS'' (Some True)])) \<and>
   snd (createSecretsMap (stub access_denied) fresh ''prod''
          [spec ''DB_PASS'' ''DB_PASS'' (Some True)]) =
     \<lparr>construct = [(''DB_PASS'', ''/eduka3d/prod/DB_PASS'')],
      console = [''Warning: Could not create secret for DB_PASS at /eduka3d/prod/DB_PASS'']\<rparr>"
  by (simp add: createSecretsMap_def loop_body_cases createParameterStoreSecret_def stub_def
        access_denied_def fresh_def spec_def resolvePath_def warning_def)

text \<open>
  Claim C5, amended: whatever the construction of a secret throws (not found, access
  denied, malformed path, throttling or anything else), the \<open>catch\<close> block handles it
  and the iteration ends normally: the mapping is as it was before the descriptor (its
  entry is omitted), the warning is written exactly when \<open>required\<close> is not \<open>false\<close>,
  and the loop goes on with the descriptors that follow. The handler does not look at
  what was thrown, no exception leaves an iteration, and \<open>createSecretsMap\<close> returns a
  mapping for every list, environment and library behaviour.
\<close>

theorem createSecretsMap_catches_everything:
  assumes "createParameterStoreSecret lib (construct w) (environmentVariable param)
             (resolvePath environment param) = (Inl error, c')"
  shows "loop_body lib environment param (secretsMap, w) =
           (Inr (), (secretsMap,
              w\<lparr>construct := c',
                console := console w @
                  (if required param = Some False then []
                   else [warning param (resolvePath environment param)])\<rparr>)) \<and>
         for_of (loop_body lib environment) (param # rest) (secretsMap, w) =
           for_of (loop_body lib environment) rest
             (secretsMap,
              w\<lparr>construct := c',
                console := console w @
                  (if required param = Some False then []
                   else [warning param (resolvePath environment param)])\<rparr>) \<and>
         (\<exists>result. fst (createSecretsMap lib w0 environment parameters) = Inr result) \<and>
         fst (loop_body lib environment param0 st0) = Inr () \<and>
         catch_block param0 path error0 st0 = catch_block param0 path error1 st0"
proof -
  have step: "loop_body lib environment param (secretsMap, w) =
           (Inr (), (secretsMap,
              w\<lparr>construct := c',
                console := console w @
                  (if required param = Some False then []
                   else [warning param (resolvePath environment param)])\<rparr>))"
    by (simp add: loop_body_cases assms)
  have "catch_block param0 path error0 st0 = catch_block param0 path error1 st0"
    by (simp add: catch_block_def split: prod.splits)
  moreover have "for_of (loop_body lib environment) (param # rest) (secretsMap, w) =
           for_of (loop_body lib environment) rest
             (secretsMap,
              w\<lparr>construct := c',
                console := console w @
                  (if required param = Some False then []
                   else [warning param (resolvePath environment param)])\<rparr>)"
    by (simp add: step)
  ultimately show ?thesis
    using step createSecretsMap_returns [of lib w0 environment parameters]
      loop_body_returns [of lib environment param0 st0]
    by simp
qed

text \<open>
  A store that throttles every call, and a mapping that already holds an entry: the
  iteration keeps the entry, adds none, and warns for the required descriptor only.
\<close>

theorem createSecretsMap_catches_everything_witness:
  "loop_body (stub throttled) ''prod'' (spec ''DB_PASS'' ''DB_PASS'' None)
       ([''DB_HOST'' \<mapsto> ''ssm:/eduka3d/prod/DB_HOST''], fresh) =
     (Inr (), ([''DB_HOST'' \<mapsto> ''ssm:/eduka3d/prod/DB_HOST''],
        \<lparr>construct = [(''DB_PASS'', ''/eduka3d/prod/DB_PASS'')],
         console = [''Warning: Could not create secret for DB_PASS at /eduka3d/prod/DB_PASS'']\<rparr>)) \<and>
   loop_body (stub throttled) ''prod'' (spec ''DB_PASS'' ''DB_PASS'' (Some False))
       ([''DB_HOST'' \<mapsto> ''ssm:/eduka3d/prod/DB_HOST''], fresh) =
     (Inr (), ([''DB_HOST'' \<mapsto> ''ssm:/eduka3d/prod/DB_HOST''],
        \<lparr>construct = [(''DB_PASS'', ''/eduka3d/prod/DB_PASS'')], console = []\<rparr>))"
proof -
  have a: "createParameterStoreSecret (stub throttled) (construct fresh)
             (environmentVariable (spec ''DB_PASS'' ''DB_PASS'' None))
             (resolvePath ''prod'' (spec ''DB_PASS'' ''DB_PASS'' None)) =
           (Inl Throttling, [(''DB_PASS'', ''/eduka3d/prod/DB_PASS'')])"
    by (simp add: createParameterStoreSecret_def stub_def throttled_def fresh_def
          spec_def resolvePath_def)
  have b: "createParameterStoreSecret (stub throttled) (construct fresh)
             (environmentVariable (spec ''DB_PASS'' ''DB_PASS'' (Some False)))
             (resolvePath ''prod'' (spec ''DB_PASS'' ''DB_PASS'' (Some False))) =
           (Inl Throttling, [(''DB_PASS'', ''/eduka3d/prod/DB_PASS'')])"
    by (simp add: createParameterStoreSecret_def stub_def throttled_def fresh_def
          spec_def resolvePath_def)
  show ?thesis
    using createSecretsMap_catches_everything [OF a, THEN conjunct1]
      createSecretsMap_catches_everything [OF b, THEN conjunct1]
    by (simp add: fresh_def spec_def resolvePath_def warning_def)
qed

section \<open>The policy statements\<close>

text \<open>
  Claim C6. \<open>createParameterStorePolicy\<close> is a function of its arguments alone; for
  every environment its statement has the effect allow, exactly the three read actions
  and a single resource pattern, which ends in \<open>/eduka3d/<environment>/*\<close>. Nothing in
  it can fail, for an empty environment either.
\<close>

theorem createParameterStorePolicy_shape:
  "effect (createParameterStorePolicy environment region accountId) = ALLOW \<and>
   actions (createParameterStorePolicy environment region accountId) =
     [''ssm:GetParameter'', ''ssm:GetParameters'', ''ssm:GetParametersByPath''] \<and>
   resources (createParameterStorePolicy environment region accountId) =
     [''arn:aws:ssm:'' @ region @ '':'' @ accountId @ '':parameter'' @
        ''/eduka3d/'' @ environment @ ''/*''] \<and>
   suffix (''/eduka3d/'' @ environment @ ''/*'')
     (hd (resources (createParameterStorePolicy environment region accountId)))"
  by (simp add: createParameterStorePolicy_def suffix_def)

text \<open>
  Claim C7. \<open>createKmsDecryptPolicy\<close> takes no argument and is one fixed statement:
  effect allow, exactly the actions \<open>kms:Decrypt\<close> and \<open>kms:DescribeKey\<close>, exactly the
  resource \<open>*\<close>; every call yields this same value.
\<close>

theorem createKmsDecryptPolicy_fixed:
  "createKmsDecryptPolicy =
     \<lparr>actions = [''kms:Decrypt'', ''kms:DescribeKey''], resources = [''*''], effect = ALLOW\<rparr> \<and>
   effect createKmsDecryptPolicy = ALLOW \<and>
   actions createKmsDecryptPolicy = [''kms:Decrypt'', ''kms:DescribeKey''] \<and>
   resources createKmsDecryptPolicy = [''*'']"
  by (simp add: createKmsDecryptPolicy_def)

section \<open>The \<open>type\<close> field\<close>

text \<open>
  Claim C8. The \<open>type\<close> field has no effect: two lists whose descriptors agree position
  by position on every other field give the same outcome of \<open>createSecretsMap\<close>, that
  is the same mapping, the same construct (hence the same calls of the library, in the
  same order and with the same paths) and the same console (the same warnings).
\<close>

theorem createSecretsMap_ignores_type:
  assumes "list_all2 differ_only_in_type ps qs"
  shows "createSecretsMap lib w environment ps = createSecretsMap lib w environment qs"
proof -
  have "for_of (loop_body lib environment) ps st = for_of (loop_body lib environment) qs st"
    for st
    using assms
  proof (induction ps qs arbitrary: st rule: list_all2_induct)
    case Nil
    show ?case by simp
  next
    case (Cons p ps q qs)
    then show ?case
      by (simp add: loop_body_ignores_type [of p q] split: prod.splits sum.splits)
  qed
  then show ?thesis by (simp add: createSecretsMap_def)
qed

text \<open>
  Two lists that differ in \<open>type\<close> only, on a store where every path is found and on
  one where none is: the results, the calls logged and the warnings are the same.
\<close>

theorem createSecretsMap_ignores_type_witness:
  "createSecretsMap (stub every_path_found) fresh ''dev''
     [\<lparr>environmentVariable = ''A'', parameterPath = ''A'', type = Some String,
       required = None\<rparr>,
      \<lparr>environmentVariable = ''B'', parameterPath = ''/shared/B'', type = None,
       required = Some False\<rparr>] =
   createSecretsMap (stub every_path_found) fresh ''dev''
     [\<lparr>environmentVariable = ''A'', parameterPath = ''A'', type = Some SecureString,
       required = None\<rparr>,
      \<lparr>environmentVariable = ''B'', parameterPath = ''/shared/B'', type = Some String,
       required = Some False\<rparr>] \<and>
   createSecretsMap (stub no_path_found) fresh ''dev''
     [\<lparr>environmentVariable = ''A'', parameterPath = ''A'', type = Some String,
       required = None\<rparr>] =
   createSecretsMap (stub no_path_found) fresh ''dev''
     [\<lparr>environmentVariable = ''A'', parameterPath = ''A'', type = None,
       required = None\<rparr>]"
  by (intro conjI createSecretsMap_ignores_type) (simp_all add: differ_only_in_type_def)

section \<open>The keys of the mapping\<close>

text \<open>
  Claim C9. Every key of the mapping returned by \<open>createSecretsMap\<close> is the
  \<open>environmentVariable\<close> of a descriptor of the list, and the mapping returned for the
  empty list is empty.
\<close>

theorem createSecretsMap_keys:
  "(\<exists>secretsMap. fst (createSecretsMap lib w environment parameters) = Inr secretsMap \<and>
      dom secretsMap \<subseteq> set (map environmentVariable parameters)) \<and>
   fst (createSecretsMap lib w environment []) = Inr Map.empty"
proof
  obtain r m' w' where
    run: "for_of (loop_body lib environment) parameters (Map.empty, w) = (r, (m', w'))"
    by (metis prod.exhaust)
  have "r = Inr ()"
    using for_of_returns [of "loop_body lib environment" parameters "(Map.empty, w)"]
      loop_body_returns [of lib environment] run by simp
  moreover have "dom m' \<subseteq> environmentVariable ` set parameters"
    using for_of_keys [OF run] by simp
  ultimately show "\<exists>secretsMap.
      fst (createSecretsMap lib w environment parameters) = Inr secretsMap \<and>
      dom secretsMap \<subseteq> set (map environmentVariable parameters)"
    by (simp add: createSecretsMap_def run)
  show "fst (createSecretsMap lib w environment []) = Inr Map.empty"
    by (simp add: createSecretsMap_def)
qed

section \<open>The default parameters\<close>

text \<open>
  Claim C10. Every entry of \<open>DEFAULT_PARAMETERS\<close> has a \<open>parameterPath\<close> without
  separator that equals its \<open>environmentVariable\<close>; so in every environment each
  default parameter resolves to \<open>/eduka3d/<environment>/<environmentVariable>\<close>, none
  through the branch for paths that hold a separator.
\<close>

theorem DEFAULT_PARAMETERS_bare:
  "list_all
     (\<lambda>param. CHR ''/'' \<notin> set (parameterPath param) \<and>
        parameterPath param = environmentVariable param \<and>
        resolvePath environment param =
          ''/eduka3d/'' @ environment @ ''/'' @ environmentVariable param)
     DEFAULT_PARAMETERS"
  by (simp add: DEFAULT_PARAMETERS_def resolvePath_def)

theorem DEFAULT_PARAMETERS_bare_witness:
  "resolvePath ''prod'' (DEFAULT_PARAMETERS ! 3) = ''/eduka3d/prod/DATABASE_NAME''"
  using DEFAULT_PARAMETERS_bare [of "''prod''"]
  by (simp add: DEFAULT_PARAMETERS_def)

end
